theory Spec2Isabelle
  imports Complex_Main "HOL-Library.Multiset"
begin

section \<open>Values of the Python program\<close>

text \<open>
  A Python float, as far as \<open>filters.py\<close> looks at one: it is only compared
  (\<open><=\<close>, \<open>>=\<close>) and tested for truth, never computed with. A float is not-a-number,
  one of the two infinities, or finite; a finite float is read as the real number it
  denotes (both zeros denote 0, and Python compares them equal).
\<close>

datatype pyfloat = NaN | MInf | Fin real | PInf

text \<open>\<open>a <= b\<close> on floats: false as soon as one side is NaN.\<close>

fun float_le :: "pyfloat \<Rightarrow> pyfloat \<Rightarrow> bool" where
  "float_le NaN b = False"
| "float_le a NaN = False"
| "float_le MInf b = True"
| "float_le a PInf = True"
| "float_le (Fin a) (Fin b) = (a \<le> b)"
| "float_le PInf b = False"
| "float_le a MInf = False"

text \<open>\<open>a >= b\<close> on floats.\<close>

definition float_ge :: "pyfloat \<Rightarrow> pyfloat \<Rightarrow> bool" where
  "float_ge a b = float_le b a"

text \<open>\<open>a > b\<close> on floats: false as soon as one side is NaN.\<close>

fun float_gt :: "pyfloat \<Rightarrow> pyfloat \<Rightarrow> bool" where
  "float_gt NaN b = False"
| "float_gt a NaN = False"
| "float_gt a MInf = (a \<noteq> MInf)"
| "float_gt PInf b = (b \<noteq> PInf)"
| "float_gt (Fin a) (Fin b) = (a > b)"
| "float_gt MInf b = False"
| "float_gt a PInf = False"

text \<open>\<open>bool(x)\<close> of a float: every float but zero is true, NaN included.\<close>

definition float_truthy :: "pyfloat \<Rightarrow> bool" where
  "float_truthy x = (x \<noteq> Fin 0)"

text \<open>
  A \<open>datetime.date\<close> and a \<open>datetime.datetime\<close>. \<open>time.date()\<close> keeps the year, the
  month and the day of a datetime and drops the time of day.
\<close>

record pydate =
  year :: nat
  month :: nat
  day :: nat

record pydatetime =
  dt_year :: nat
  dt_month :: nat
  dt_day :: nat
  dt_hour :: nat
  dt_minute :: nat
  dt_second :: nat

definition date_of :: "pydatetime \<Rightarrow> pydate" where
  "date_of t = \<lparr>year = dt_year t, month = dt_month t, day = dt_day t\<rparr>"

text \<open>\<open>a <= b\<close> on dates: the order of the calendar, year first, then month, then day.\<close>

definition date_le :: "pydate \<Rightarrow> pydate \<Rightarrow> bool" where
  "date_le a b =
     (year a < year b \<or>
      (year a = year b \<and> (month a < month b \<or> (month a = month b \<and> day a \<le> day b))))"

definition date_ge :: "pydate \<Rightarrow> pydate \<Rightarrow> bool" where
  "date_ge a b = date_le b a"

section \<open>The entities\<close>

text \<open>
  Modelled from the spec: the classes \<open>NearEarthObject\<close> and \<open>CloseApproach\<close> of
  \<open>models.py\<close>, which \<open>extract.py\<close> constructs and \<open>filters.py\<close> reads. The fields
  are those of section 3 of the specification; \<open>neo\<close> is the near-Earth object the
  database has linked the approach to, always present there. The back-references
  \<open>approaches\<close> of an object are not read by the filters and are left out.
\<close>

record near_earth_object =
  designation :: string
  name :: "string option"
  diameter :: pyfloat
  hazardous :: bool

record close_approach =
  time :: pydatetime
  distance :: pyfloat
  velocity :: pyfloat
  neo :: near_earth_object

section \<open>\<open>limit\<close>\<close>

datatype py_error = ValueError

text \<open>
  \<open>sys.maxsize\<close>, the largest index of the platform: \<open>2 ** 63 - 1\<close> on a 64-bit build of
  CPython.
\<close>

definition maxsize :: int where
  "maxsize = 2 ^ 63 - 1"

text \<open>
  \<open>itertools.islice(iterator, n)\<close>, drained: the first \<open>n\<close> items of the iterator, all of
  them when there are fewer. The stop argument must be an integer with
  \<open>0 <= n <= sys.maxsize\<close>: a negative \<open>n\<close> and an \<open>n\<close> above \<open>sys.maxsize\<close> raise
  \<open>ValueError\<close>. An iterator is modelled by the finite list of the items it produces; \<open>n\<close>
  is a Python integer, unbounded.
\<close>

definition islice :: "'a list \<Rightarrow> int \<Rightarrow> py_error + 'a list" where
  "islice iterator n =
     (if n < 0 \<or> maxsize < n then Inl ValueError else Inr (take (nat n) iterator))"

text \<open>
  \<^verbatim>\<open>
  def limit(iterator, n=None):
      if (n == 0) or (n is None):
          return iterator
      return itertools.islice(iterator, n)
  \<close>
\<close>

definition limit :: "'a list \<Rightarrow> int option \<Rightarrow> py_error + 'a list" where
  "limit iterator n =
     (case n of
        None \<Rightarrow> Inr iterator
      | Some k \<Rightarrow> if k = 0 then Inr iterator else islice iterator k)"

section \<open>\<open>create_filters\<close>\<close>

text \<open>
  What a filter returns: the lambdas of \<open>create_filters\<close> return their argument or
  \<open>False\<close>, so a result is a Python boolean or a close approach. Modelled from the
  spec: \<open>CloseApproach\<close> is a passive holder of data, with no truth value of its own,
  so Python takes an approach for true.
\<close>

datatype pyvalue = PyBool bool | PyApproach close_approach

fun truthy :: "pyvalue \<Rightarrow> bool" where
  "truthy (PyBool b) = b"
| "truthy (PyApproach x) = True"

text \<open>
  A filter is one of the ten lambdas of \<open>create_filters\<close> together with the bound it
  has captured: a closure, written as a constructor for the lambda applied to the
  captured value. The constructors stand in the order of the source.
\<close>

datatype attribute_filter =
    DistanceMin pyfloat
  | DistanceMax pyfloat
  | VelocityMin pyfloat
  | VelocityMax pyfloat
  | Hazardous bool
  | DiameterMin pyfloat
  | DiameterMax pyfloat
  | Date pydate
  | StartDate pydate
  | EndDate pydate

text \<open>
  Calling a filter on a close approach: the bodies of the lambdas, one equation each,
  \<^verbatim>\<open>
  lambda x: x if x.distance >= distance_min else False
  lambda x: x if x.distance <= distance_max else False
  lambda x: x if x.velocity >= velocity_min else False
  lambda x: x if x.velocity <= velocity_max else False
  lambda x: x if x.neo.hazardous == hazardous else False
  lambda x: x if x.neo.diameter >= diameter_min else False
  lambda x: x if x.neo.diameter <= diameter_max else False
  lambda x: x if x.time.date() == date else False
  lambda x: x if x.time.date() >= start_date else False
  lambda x: x if x.time.date() <= end_date else False
  \<close>
\<close>

fun call_filter :: "attribute_filter \<Rightarrow> close_approach \<Rightarrow> pyvalue" where
  "call_filter (DistanceMin distance_min) x =
     (if float_ge (distance x) distance_min then PyApproach x else PyBool False)"
| "call_filter (DistanceMax distance_max) x =
     (if float_le (distance x) distance_max then PyApproach x else PyBool False)"
| "call_filter (VelocityMin velocity_min) x =
     (if float_ge (velocity x) velocity_min then PyApproach x else PyBool False)"
| "call_filter (VelocityMax velocity_max) x =
     (if float_le (velocity x) velocity_max then PyApproach x else PyBool False)"
| "call_filter (Hazardous h) x =
     (if hazardous (neo x) = h then PyApproach x else PyBool False)"
| "call_filter (DiameterMin diameter_min) x =
     (if float_ge (diameter (neo x)) diameter_min then PyApproach x else PyBool False)"
| "call_filter (DiameterMax diameter_max) x =
     (if float_le (diameter (neo x)) diameter_max then PyApproach x else PyBool False)"
| "call_filter (Date d) x =
     (if date_of (time x) = d then PyApproach x else PyBool False)"
| "call_filter (StartDate start_date) x =
     (if date_ge (date_of (time x)) start_date then PyApproach x else PyBool False)"
| "call_filter (EndDate end_date) x =
     (if date_le (date_of (time x)) end_date then PyApproach x else PyBool False)"

text \<open>
  The three guards of \<open>create_filters\<close>, each followed by its \<open>filters.append\<close>. An
  argument that was not given is \<open>None\<close>.

  \<open>if bound:\<close> on a float argument: \<open>None\<close> is false, and so is a float equal to zero.
\<close>

fun append_if_float ::
  "pyfloat option \<Rightarrow> (pyfloat \<Rightarrow> attribute_filter) \<Rightarrow> attribute_filter list
     \<Rightarrow> attribute_filter list" where
  "append_if_float None mk filters = filters"
| "append_if_float (Some bound) mk filters =
     (if float_truthy bound then filters @ [mk bound] else filters)"

text \<open>\<open>if hazardous is not None:\<close>\<close>

fun append_if_not_none ::
  "bool option \<Rightarrow> (bool \<Rightarrow> attribute_filter) \<Rightarrow> attribute_filter list
     \<Rightarrow> attribute_filter list" where
  "append_if_not_none None mk filters = filters"
| "append_if_not_none (Some h) mk filters = filters @ [mk h]"

text \<open>\<open>if date:\<close> on a date argument: \<open>None\<close> is false, every \<open>datetime.date\<close> is true.\<close>

fun append_if_date ::
  "pydate option \<Rightarrow> (pydate \<Rightarrow> attribute_filter) \<Rightarrow> attribute_filter list
     \<Rightarrow> attribute_filter list" where
  "append_if_date None mk filters = filters"
| "append_if_date (Some d) mk filters = filters @ [mk d]"

text \<open>
  \<^verbatim>\<open>
  def create_filters(date=None, start_date=None, end_date=None,
                     distance_min=None, distance_max=None,
                     velocity_min=None, velocity_max=None,
                     diameter_min=None, diameter_max=None,
                     hazardous=None):
      filters = []
      if distance_min: filters.append(...)
      if distance_max: filters.append(...)
      if velocity_min: filters.append(...)
      if velocity_max: filters.append(...)
      if hazardous is not None: filters.append(...)
      if diameter_min: filters.append(...)
      if diameter_max: filters.append(...)
      if date: filters.append(...)
      if start_date: filters.append(...)
      if end_date: filters.append(...)
      return filters
  \<close>
  The arguments stand in the order of the signature; the argument \<open>hazardous\<close> is
  written \<open>hazardous_arg\<close> here, \<open>hazardous\<close> being the field of the object.
\<close>

definition create_filters ::
  "pydate option \<Rightarrow> pydate option \<Rightarrow> pydate option
     \<Rightarrow> pyfloat option \<Rightarrow> pyfloat option
     \<Rightarrow> pyfloat option \<Rightarrow> pyfloat option
     \<Rightarrow> pyfloat option \<Rightarrow> pyfloat option
     \<Rightarrow> bool option \<Rightarrow> attribute_filter list" where
  "create_filters date start_date end_date distance_min distance_max
       velocity_min velocity_max diameter_min diameter_max hazardous_arg =
     (let filters = [];
          filters = append_if_float distance_min DistanceMin filters;
          filters = append_if_float distance_max DistanceMax filters;
          filters = append_if_float velocity_min VelocityMin filters;
          filters = append_if_float velocity_max VelocityMax filters;
          filters = append_if_not_none hazardous_arg Hazardous filters;
          filters = append_if_float diameter_min DiameterMin filters;
          filters = append_if_float diameter_max DiameterMax filters;
          filters = append_if_date date Date filters;
          filters = append_if_date start_date StartDate filters;
          filters = append_if_date end_date EndDate filters
      in filters)"

text \<open>An approach satisfies a collection of filters when every one of them returns a
  true value for it.\<close>

definition satisfies_all :: "attribute_filter list \<Rightarrow> close_approach \<Rightarrow> bool" where
  "satisfies_all filters x = list_all (\<lambda>f. truthy (call_filter f x)) filters"

text \<open>
  The criterion a filter stands for, in the words of the table of section 4.2 of the
  specification: the selected attribute, the operator and the bound.
\<close>

fun criterion_holds :: "attribute_filter \<Rightarrow> close_approach \<Rightarrow> bool" where
  "criterion_holds (DistanceMin b) x = float_ge (distance x) b"
| "criterion_holds (DistanceMax b) x = float_le (distance x) b"
| "criterion_holds (VelocityMin b) x = float_ge (velocity x) b"
| "criterion_holds (VelocityMax b) x = float_le (velocity x) b"
| "criterion_holds (Hazardous h) x = (hazardous (neo x) = h)"
| "criterion_holds (DiameterMin b) x = float_ge (diameter (neo x)) b"
| "criterion_holds (DiameterMax b) x = float_le (diameter (neo x)) b"
| "criterion_holds (Date d) x = (date_of (time x) = d)"
| "criterion_holds (StartDate d) x = date_ge (date_of (time x)) d"
| "criterion_holds (EndDate d) x = date_le (date_of (time x)) d"

text \<open>
  Modelled from the spec: the method \<open>query\<close> of the database, which is not part of
  these sources. Section 4.1: it goes through the approaches in their original order,
  yields an approach when all the filters pass for it, and truncates the sequence to at
  most \<open>limit\<close> items, 0 or an absent limit meaning no bound.
\<close>

definition query ::
  "close_approach list \<Rightarrow> attribute_filter list \<Rightarrow> int option
     \<Rightarrow> py_error + close_approach list" where
  "query approaches filters n = limit (filter (satisfies_all filters) approaches) n"

section \<open>Fixtures\<close>

text \<open>
  The concrete scenario of section 8 of the specification (the object Eros and its one
  approach, here at half past noon), and an approach of an object of unknown diameter.
\<close>

definition eros :: near_earth_object where
  "eros = \<lparr>designation = ''2000433'', name = Some ''Eros'', diameter = Fin 16.84,
            hazardous = False\<rparr>"

definition approach_2020 :: close_approach where
  "approach_2020 =
     \<lparr>time = \<lparr>dt_year = 2020, dt_month = 1, dt_day = 1, dt_hour = 12, dt_minute = 30,
               dt_second = 0\<rparr>,
      distance = Fin 0.3, velocity = Fin 5, neo = eros\<rparr>"

definition unknown_neo :: near_earth_object where
  "unknown_neo = \<lparr>designation = ''2020 AB'', name = None, diameter = NaN,
                   hazardous = True\<rparr>"

definition approach_unknown :: close_approach where
  "approach_unknown =
     \<lparr>time = \<lparr>dt_year = 2020, dt_month = 1, dt_day = 1, dt_hour = 23, dt_minute = 59,
               dt_second = 0\<rparr>,
      distance = Fin 0.02, velocity = Fin 12, neo = unknown_neo\<rparr>"

text \<open>The approach of Eros again, at midnight of the day after.\<close>

definition approach_next_day :: close_approach where
  "approach_next_day =
     \<lparr>time = \<lparr>dt_year = 2020, dt_month = 1, dt_day = 2, dt_hour = 0, dt_minute = 0,
               dt_second = 0\<rparr>,
      distance = Fin 0.3, velocity = Fin 5, neo = eros\<rparr>"

text \<open>Three days to compare with: 2019-12-31, 2020-01-01 and 2020-01-02.\<close>

definition new_years_eve_2019 :: pydate where
  "new_years_eve_2019 = \<lparr>year = 2019, month = 12, day = 31\<rparr>"

definition new_year_2020 :: pydate where
  "new_year_2020 = \<lparr>year = 2020, month = 1, day = 1\<rparr>"

definition second_day_2020 :: pydate where
  "second_day_2020 = \<lparr>year = 2020, month = 1, day = 2\<rparr>"

section \<open>Properties of \<open>limit\<close>\<close>

text \<open>
  C3. For every sequence, \<open>limit(seq, 0)\<close> and \<open>limit(seq, None)\<close> both return the
  sequence unchanged: every element, in its original order, nothing cut off.
\<close>

theorem limit_zero_or_none_unchanged:
  "limit seq (Some 0) = Inr seq \<and> limit seq None = Inr seq"
  by (simp add: limit_def)




section \<open>Lemmas on the filters\<close>

lemma satisfies_all_append:
  "satisfies_all (fs @ gs) x = (satisfies_all fs x \<and> satisfies_all gs x)"
  by (simp add: satisfies_all_def)

lemma call_filter_criterion:
  "call_filter f x = (if criterion_holds f x then PyApproach x else PyBool False)"
  by (cases f) simp_all

lemma truthy_call_filter: "truthy (call_filter f x) = criterion_holds f x"
  by (simp add: call_filter_criterion)

lemma append_if_float_append:
  "append_if_float arg mk fs = fs @ append_if_float arg mk []"
  by (cases arg) simp_all

lemma append_if_not_none_append:
  "append_if_not_none arg mk fs = fs @ append_if_not_none arg mk []"
  by (cases arg) simp_all

lemma append_if_date_append:
  "append_if_date arg mk fs = fs @ append_if_date arg mk []"
  by (cases arg) simp_all

lemma create_filters_segments:
  "create_filters date start_date end_date distance_min distance_max
       velocity_min velocity_max diameter_min diameter_max hazardous_arg =
     append_if_float distance_min DistanceMin []
     @ append_if_float distance_max DistanceMax []
     @ append_if_float velocity_min VelocityMin []
     @ append_if_float velocity_max VelocityMax []
     @ append_if_not_none hazardous_arg Hazardous []
     @ append_if_float diameter_min DiameterMin []
     @ append_if_float diameter_max DiameterMax []
     @ append_if_date date Date []
     @ append_if_date start_date StartDate []
     @ append_if_date end_date EndDate []"
proof -
  have "create_filters date start_date end_date distance_min distance_max
       velocity_min velocity_max diameter_min diameter_max hazardous_arg =
    append_if_date end_date EndDate (append_if_date start_date StartDate
     (append_if_date date Date (append_if_float diameter_max DiameterMax
      (append_if_float diameter_min DiameterMin (append_if_not_none hazardous_arg Hazardous
       (append_if_float velocity_max VelocityMax (append_if_float velocity_min VelocityMin
        (append_if_float distance_max DistanceMax
          (append_if_float distance_min DistanceMin [])))))))))"
    by (simp add: create_filters_def)
  also have "\<dots> = append_if_float distance_min DistanceMin []
     @ append_if_float distance_max DistanceMax []
     @ append_if_float velocity_min VelocityMin []
     @ append_if_float velocity_max VelocityMax []
     @ append_if_not_none hazardous_arg Hazardous []
     @ append_if_float diameter_min DiameterMin []
     @ append_if_float diameter_max DiameterMax []
     @ append_if_date date Date []
     @ append_if_date start_date StartDate []
     @ append_if_date end_date EndDate []"
    apply (subst append_if_date_append)
    apply (subst append_if_date_append [of start_date])
    apply (subst append_if_date_append [of date])
    apply (subst append_if_float_append [of diameter_max])
    apply (subst append_if_float_append [of diameter_min])
    apply (subst append_if_not_none_append)
    apply (subst append_if_float_append [of velocity_max])
    apply (subst append_if_float_append [of velocity_min])
    apply (subst append_if_float_append [of distance_max])
    apply simp
    done
  finally show ?thesis .
qed

lemma satisfies_float_segment:
  "satisfies_all (append_if_float arg mk []) x =
     (\<forall>b. arg = Some b \<and> float_truthy b \<longrightarrow> criterion_holds (mk b) x)"
  by (cases arg) (simp_all add: satisfies_all_def truthy_call_filter)

lemma satisfies_not_none_segment:
  "satisfies_all (append_if_not_none arg mk []) x =
     (\<forall>h. arg = Some h \<longrightarrow> criterion_holds (mk h) x)"
  by (cases arg) (simp_all add: satisfies_all_def truthy_call_filter)

lemma satisfies_date_segment:
  "satisfies_all (append_if_date arg mk []) x =
     (\<forall>d. arg = Some d \<longrightarrow> criterion_holds (mk d) x)"
  by (cases arg) (simp_all add: satisfies_all_def truthy_call_filter)

lemma satisfies_create_filters:
  "satisfies_all (create_filters date start_date end_date distance_min distance_max
       velocity_min velocity_max diameter_min diameter_max hazardous_arg) x =
   ((\<forall>b. distance_min = Some b \<and> float_truthy b \<longrightarrow> float_ge (distance x) b) \<and>
    (\<forall>b. distance_max = Some b \<and> float_truthy b \<longrightarrow> float_le (distance x) b) \<and>
    (\<forall>b. velocity_min = Some b \<and> float_truthy b \<longrightarrow> float_ge (velocity x) b) \<and>
    (\<forall>b. velocity_max = Some b \<and> float_truthy b \<longrightarrow> float_le (velocity x) b) \<and>
    (\<forall>h. hazardous_arg = Some h \<longrightarrow> hazardous (neo x) = h) \<and>
    (\<forall>b. diameter_min = Some b \<and> float_truthy b \<longrightarrow> float_ge (diameter (neo x)) b) \<and>
    (\<forall>b. diameter_max = Some b \<and> float_truthy b \<longrightarrow> float_le (diameter (neo x)) b) \<and>
    (\<forall>d. date = Some d \<longrightarrow> date_of (time x) = d) \<and>
    (\<forall>d. start_date = Some d \<longrightarrow> date_ge (date_of (time x)) d) \<and>
    (\<forall>d. end_date = Some d \<longrightarrow> date_le (date_of (time x)) d))"
  unfolding create_filters_segments satisfies_all_append
    satisfies_float_segment satisfies_not_none_segment satisfies_date_segment
  by simp

lemma float_le_trans: "float_le a b \<Longrightarrow> float_le b c \<Longrightarrow> float_le a c"
  by (cases a; cases b; cases c) simp_all

lemma float_gt_not_le: "float_gt a b \<Longrightarrow> \<not> float_le a b"
  by (cases a; cases b) simp_all

lemma float_le_nan: "\<not> float_le NaN b" "\<not> float_le a NaN"
  by (cases a; simp)+

lemma satisfies_all_mset:
  assumes "mset fs = mset gs"
  shows "satisfies_all fs x = satisfies_all gs x"
proof -
  from assms have "set fs = set gs"
    by (rule mset_eq_setD)
  then show ?thesis
    by (simp add: satisfies_all_def list_all_iff)
qed

lemma date_le_trans: "date_le a b \<Longrightarrow> date_le b c \<Longrightarrow> date_le a c"
  unfolding date_le_def by linarith

lemma date_le_antisym: "date_le a b \<Longrightarrow> date_le b a \<Longrightarrow> a = (b :: pydate)"
  unfolding date_le_def by (cases a; cases b) auto

lemma filter_none_satisfy:
  assumes "\<And>x. \<not> satisfies_all fs x"
  shows "filter (satisfies_all fs) approaches = []"
  using assms by (induction approaches) simp_all

lemma float_bounds_crossed:
  assumes "float_gt lo hi"
  shows "\<not> (float_ge v lo \<and> float_le v hi)"
proof
  assume "float_ge v lo \<and> float_le v hi"
  then have "float_le lo hi"
    unfolding float_ge_def by (blast intro: float_le_trans)
  with assms show False
    by (simp add: float_gt_not_le)
qed

section \<open>Properties of \<open>create_filters\<close>\<close>

text \<open>
  C1. The claim: a numeric criterion given the bound zero is an active constraint, with a
  filter of its own in the collection. The code at that input: with every numeric bound
  zero, and with \<open>distance_max=0.0\<close> alone, \<open>create_filters\<close> returns the empty
  collection, so the approach of Eros at distance 0.3 passes although 0.3 is not at
  most 0.
\<close>

theorem zero_bound_appends_no_filter:
  "create_filters None None None (Some (Fin 0)) (Some (Fin 0)) (Some (Fin 0)) (Some (Fin 0))
       (Some (Fin 0)) (Some (Fin 0)) None = []
   \<and> create_filters None None None None (Some (Fin 0)) None None None None None = []
   \<and> satisfies_all (create_filters None None None None (Some (Fin 0)) None None None None None)
        approach_2020
   \<and> \<not> float_le (distance approach_2020) (Fin 0)"
  by (simp add: create_filters_def float_truthy_def satisfies_all_def approach_2020_def)

text \<open>
  C2. The hazardous criterion has three states. Absent (\<open>None\<close>): no hazardous filter is
  in the collection. \<open>True\<close>: the filter is satisfied exactly by the approaches whose
  object is flagged hazardous. \<open>False\<close>: exactly by those whose object is not. Whatever
  the other criteria are, giving \<open>hazardous=h\<close> adds to the absent case the one
  constraint that the flag equals \<open>h\<close>.
\<close>

theorem hazardous_tri_state:
  "(\<forall>h. Hazardous h \<notin> set (create_filters date start_date end_date distance_min distance_max
       velocity_min velocity_max diameter_min diameter_max None))
   \<and> create_filters None None None None None None None None None None = []
   \<and> create_filters None None None None None None None None None (Some h) = [Hazardous h]
   \<and> truthy (call_filter (Hazardous True) x) = hazardous (neo x)
   \<and> truthy (call_filter (Hazardous False) x) = (\<not> hazardous (neo x))
   \<and> satisfies_all (create_filters date start_date end_date distance_min distance_max
         velocity_min velocity_max diameter_min diameter_max (Some h)) x
       = (satisfies_all (create_filters date start_date end_date distance_min distance_max
            velocity_min velocity_max diameter_min diameter_max None) x
          \<and> hazardous (neo x) = h)"
proof -
  have absent: "Hazardous h \<notin> set (create_filters date start_date end_date distance_min
       distance_max velocity_min velocity_max diameter_min diameter_max None)" for h
    unfolding create_filters_segments
    by (cases distance_min; cases distance_max; cases velocity_min; cases velocity_max;
        cases diameter_min; cases diameter_max; cases date; cases start_date; cases end_date)
       simp_all
  have none: "create_filters None None None None None None None None None None = []"
    by (simp add: create_filters_def)
  have only: "create_filters None None None None None None None None None (Some h)
      = [Hazardous h]"
    by (simp add: create_filters_def)
  have t: "truthy (call_filter (Hazardous True) x) = hazardous (neo x)"
    by simp
  have f: "truthy (call_filter (Hazardous False) x) = (\<not> hazardous (neo x))"
    by simp
  have adds: "satisfies_all (create_filters date start_date end_date distance_min distance_max
         velocity_min velocity_max diameter_min diameter_max (Some h)) x
       = (satisfies_all (create_filters date start_date end_date distance_min distance_max
            velocity_min velocity_max diameter_min diameter_max None) x
          \<and> hazardous (neo x) = h)"
    unfolding satisfies_create_filters by auto
  from absent none only t f adds show ?thesis
    by blast
qed

text \<open>
  C5. The filters combine by logical AND. For every close approach, satisfying all the
  filters of the returned collection is the conjunction of the criteria the collection
  holds a filter for (a float bound that is given and true, a hazardous flag that is
  given, a date that is given), and the outcome is the same for every permutation of the
  collection. A filter is a function of the approach alone: calling it changes nothing.
\<close>

theorem filters_combine_by_and:
  "satisfies_all (create_filters date start_date end_date distance_min distance_max
       velocity_min velocity_max diameter_min diameter_max hazardous_arg) x =
   ((\<forall>b. distance_min = Some b \<and> float_truthy b \<longrightarrow> float_ge (distance x) b) \<and>
    (\<forall>b. distance_max = Some b \<and> float_truthy b \<longrightarrow> float_le (distance x) b) \<and>
    (\<forall>b. velocity_min = Some b \<and> float_truthy b \<longrightarrow> float_ge (velocity x) b) \<and>
    (\<forall>b. velocity_max = Some b \<and> float_truthy b \<longrightarrow> float_le (velocity x) b) \<and>
    (\<forall>h. hazardous_arg = Some h \<longrightarrow> hazardous (neo x) = h) \<and>
    (\<forall>b. diameter_min = Some b \<and> float_truthy b \<longrightarrow> float_ge (diameter (neo x)) b) \<and>
    (\<forall>b. diameter_max = Some b \<and> float_truthy b \<longrightarrow> float_le (diameter (neo x)) b) \<and>
    (\<forall>d. date = Some d \<longrightarrow> date_of (time x) = d) \<and>
    (\<forall>d. start_date = Some d \<longrightarrow> date_ge (date_of (time x)) d) \<and>
    (\<forall>d. end_date = Some d \<longrightarrow> date_le (date_of (time x)) d))
   \<and> (\<forall>fs. mset fs = mset (create_filters date start_date end_date distance_min distance_max
              velocity_min velocity_max diameter_min diameter_max hazardous_arg)
          \<longrightarrow> satisfies_all fs x
              = satisfies_all (create_filters date start_date end_date distance_min
                  distance_max velocity_min velocity_max diameter_min diameter_max
                  hazardous_arg) x)"
proof (rule conjI)
  show "satisfies_all (create_filters date start_date end_date distance_min distance_max
       velocity_min velocity_max diameter_min diameter_max hazardous_arg) x =
   ((\<forall>b. distance_min = Some b \<and> float_truthy b \<longrightarrow> float_ge (distance x) b) \<and>
    (\<forall>b. distance_max = Some b \<and> float_truthy b \<longrightarrow> float_le (distance x) b) \<and>
    (\<forall>b. velocity_min = Some b \<and> float_truthy b \<longrightarrow> float_ge (velocity x) b) \<and>
    (\<forall>b. velocity_max = Some b \<and> float_truthy b \<longrightarrow> float_le (velocity x) b) \<and>
    (\<forall>h. hazardous_arg = Some h \<longrightarrow> hazardous (neo x) = h) \<and>
    (\<forall>b. diameter_min = Some b \<and> float_truthy b \<longrightarrow> float_ge (diameter (neo x)) b) \<and>
    (\<forall>b. diameter_max = Some b \<and> float_truthy b \<longrightarrow> float_le (diameter (neo x)) b) \<and>
    (\<forall>d. date = Some d \<longrightarrow> date_of (time x) = d) \<and>
    (\<forall>d. start_date = Some d \<longrightarrow> date_ge (date_of (time x)) d) \<and>
    (\<forall>d. end_date = Some d \<longrightarrow> date_le (date_of (time x)) d))"
    by (rule satisfies_create_filters)
next
  show "\<forall>fs. mset fs = mset (create_filters date start_date end_date distance_min distance_max
              velocity_min velocity_max diameter_min diameter_max hazardous_arg)
          \<longrightarrow> satisfies_all fs x
              = satisfies_all (create_filters date start_date end_date distance_min
                  distance_max velocity_min velocity_max diameter_min diameter_max
                  hazardous_arg) x"
    by (intro allI impI) (rule satisfies_all_mset)
qed

theorem filters_combine_by_and_witness:
  "create_filters None None None (Some (Fin 0.05)) None None None None None (Some True)
     = [DistanceMin (Fin 0.05), Hazardous True]
   \<and> satisfies_all [DistanceMin (Fin 0.05), Hazardous True] approach_unknown = False
   \<and> satisfies_all [Hazardous True, DistanceMin (Fin 0.05)] approach_unknown = False
   \<and> satisfies_all [Hazardous True, DistanceMin (Fin 0.05)] approach_2020 = False"
proof -
  let ?fs = "create_filters None None None (Some (Fin 0.05)) None None None None None
      (Some True)"
  have made: "?fs = [DistanceMin (Fin 0.05), Hazardous True]"
    by (simp add: create_filters_def float_truthy_def)
  have perm: "mset [Hazardous True, DistanceMin (Fin 0.05)] = mset ?fs"
    unfolding made by (simp add: add_mset_commute)
  note and_u = filters_combine_by_and [of None None None "Some (Fin 0.05)" None None None
      None None "Some True" approach_unknown]
  note and_e = filters_combine_by_and [of None None None "Some (Fin 0.05)" None None None
      None None "Some True" approach_2020]
  have far: "\<not> float_ge (distance approach_unknown) (Fin 0.05)"
    by (simp add: approach_unknown_def float_ge_def)
  have tame: "\<not> hazardous (neo approach_2020)"
    by (simp add: approach_2020_def eros_def)
  from and_u [THEN conjunct1] far have u: "\<not> satisfies_all ?fs approach_unknown"
    by (simp add: float_truthy_def)
  from and_e [THEN conjunct1] tame have e: "\<not> satisfies_all ?fs approach_2020"
    by auto
  from and_u [THEN conjunct2, rule_format, OF perm] u
  have pu: "\<not> satisfies_all [Hazardous True, DistanceMin (Fin 0.05)] approach_unknown"
    by simp
  from and_e [THEN conjunct2, rule_format, OF perm] e
  have pe: "\<not> satisfies_all [Hazardous True, DistanceMin (Fin 0.05)] approach_2020"
    by simp
  from u made have u': "\<not> satisfies_all [DistanceMin (Fin 0.05), Hazardous True]
      approach_unknown"
    by simp
  from made u' pu pe show ?thesis
    by simp
qed

text \<open>
  C6. For every close approach whose object has a NaN diameter, the filter made for
  \<open>diameter_min\<close> and the filter made for \<open>diameter_max\<close> both return \<open>False\<close>,
  whatever the bound: a comparison with NaN is false, and it returns a value, no error.
  When the bound is one the guard lets through, the filter is in the collection and the
  approach is excluded, whatever the other criteria are.
\<close>

theorem nan_diameter_never_matches:
  assumes "diameter (neo x) = NaN"
  shows "call_filter (DiameterMin b) x = PyBool False
       \<and> call_filter (DiameterMax b) x = PyBool False
       \<and> (float_truthy b \<longrightarrow>
            create_filters None None None None None None None (Some b) None None
              = [DiameterMin b]
          \<and> create_filters None None None None None None None None (Some b) None
              = [DiameterMax b]
          \<and> \<not> satisfies_all (create_filters date start_date end_date distance_min
                 distance_max velocity_min velocity_max (Some b) diameter_max hazardous_arg) x
          \<and> \<not> satisfies_all (create_filters date start_date end_date distance_min
                 distance_max velocity_min velocity_max diameter_min (Some b) hazardous_arg) x)"
proof -
  from assms have lo: "\<not> float_ge (diameter (neo x)) b"
    by (simp add: float_ge_def float_le_nan)
  from assms have hi: "\<not> float_le (diameter (neo x)) b"
    by (simp add: float_le_nan)
  from lo have a: "call_filter (DiameterMin b) x = PyBool False"
    by simp
  from hi have c: "call_filter (DiameterMax b) x = PyBool False"
    by simp
  have made: "create_filters None None None None None None None (Some b) None None
        = [DiameterMin b]
      \<and> create_filters None None None None None None None None (Some b) None
        = [DiameterMax b]" if "float_truthy b"
    using that by (simp add: create_filters_def)
  have out_min: "\<not> satisfies_all (create_filters date start_date end_date distance_min
      distance_max velocity_min velocity_max (Some b) diameter_max hazardous_arg) x"
    if "float_truthy b"
    unfolding satisfies_create_filters using that lo by blast
  have out_max: "\<not> satisfies_all (create_filters date start_date end_date distance_min
      distance_max velocity_min velocity_max diameter_min (Some b) hazardous_arg) x"
    if "float_truthy b"
    unfolding satisfies_create_filters using that hi by blast
  from a c made out_min out_max show ?thesis
    by blast
qed

theorem nan_diameter_never_matches_witness:
  "diameter (neo approach_unknown) = NaN
   \<and> call_filter (DiameterMin (Fin 1)) approach_unknown = PyBool False
   \<and> call_filter (DiameterMax (Fin 1)) approach_unknown = PyBool False
   \<and> create_filters None None None None None None None (Some (Fin 1)) None None
        = [DiameterMin (Fin 1)]
   \<and> satisfies_all (create_filters None None None None None None None (Some (Fin 1)) None
        None) approach_unknown = False
   \<and> satisfies_all (create_filters None None None None None None None None (Some (Fin 1))
        None) approach_unknown = False"
proof -
  have nan: "diameter (neo approach_unknown) = NaN"
    by (simp add: approach_unknown_def unknown_neo_def)
  have tr: "float_truthy (Fin 1)"
    by (simp add: float_truthy_def)
  note w = nan_diameter_never_matches [OF nan, of "Fin 1" None None None None None None None
      None None None]
  from w tr nan show ?thesis
    by auto
qed

text \<open>
  C7. The three date criteria look at the calendar date of an approach's time only,
  its year, month and day. The filter for \<open>date\<close> passes exactly when the three equal
  those of the given date; the filter for \<open>start_date\<close> exactly when the day of the
  approach is the given day or a later one (a later year, or the same year and a later
  month, or the same year and month and a day not before); the filter for \<open>end_date\<close>
  exactly when it is the given day or an earlier one. Given together the three all apply.
  Changing the hour, minute and second of the approach changes none of the answers.
\<close>

theorem date_filters_compare_calendar_date:
  "create_filters (Some d) None None None None None None None None None = [Date d]
   \<and> create_filters None (Some d) None None None None None None None None = [StartDate d]
   \<and> create_filters None None (Some d) None None None None None None None = [EndDate d]
   \<and> truthy (call_filter (Date d) x)
       = (dt_year (time x) = year d \<and> dt_month (time x) = month d \<and> dt_day (time x) = day d)
   \<and> truthy (call_filter (StartDate d) x)
       = (year d < dt_year (time x)
          \<or> (year d = dt_year (time x)
              \<and> (month d < dt_month (time x)
                  \<or> (month d = dt_month (time x) \<and> day d \<le> dt_day (time x)))))
   \<and> truthy (call_filter (EndDate d) x)
       = (dt_year (time x) < year d
          \<or> (dt_year (time x) = year d
              \<and> (dt_month (time x) < month d
                  \<or> (dt_month (time x) = month d \<and> dt_day (time x) \<le> day d))))
   \<and> satisfies_all (create_filters (Some d) (Some s) (Some e) None None None None None None
          None) x
       = (truthy (call_filter (Date d) x) \<and> truthy (call_filter (StartDate s) x)
          \<and> truthy (call_filter (EndDate e) x))
   \<and> truthy (call_filter (Date d)
         (x\<lparr>time := (time x)\<lparr>dt_hour := hh, dt_minute := mm, dt_second := ss\<rparr>\<rparr>))
       = truthy (call_filter (Date d) x)
   \<and> truthy (call_filter (StartDate d)
         (x\<lparr>time := (time x)\<lparr>dt_hour := hh, dt_minute := mm, dt_second := ss\<rparr>\<rparr>))
       = truthy (call_filter (StartDate d) x)
   \<and> truthy (call_filter (EndDate d)
         (x\<lparr>time := (time x)\<lparr>dt_hour := hh, dt_minute := mm, dt_second := ss\<rparr>\<rparr>))
       = truthy (call_filter (EndDate d) x)"
proof -
  have made: "create_filters (Some d) None None None None None None None None None = [Date d]
     \<and> create_filters None (Some d) None None None None None None None None = [StartDate d]
     \<and> create_filters None None (Some d) None None None None None None None = [EndDate d]"
    by (simp add: create_filters_def)
  have on_day: "truthy (call_filter (Date d) x)
       = (dt_year (time x) = year d \<and> dt_month (time x) = month d \<and> dt_day (time x) = day d)"
    by (cases d) (auto simp: date_of_def)
  have from_day: "truthy (call_filter (StartDate d) x)
       = (year d < dt_year (time x)
          \<or> (year d = dt_year (time x)
              \<and> (month d < dt_month (time x)
                  \<or> (month d = dt_month (time x) \<and> day d \<le> dt_day (time x)))))"
    by (simp add: date_of_def date_ge_def date_le_def)
  have to_day: "truthy (call_filter (EndDate d) x)
       = (dt_year (time x) < year d
          \<or> (dt_year (time x) = year d
              \<and> (dt_month (time x) < month d
                  \<or> (dt_month (time x) = month d \<and> dt_day (time x) \<le> day d))))"
    by (simp add: date_of_def date_le_def)
  have together: "satisfies_all (create_filters (Some d) (Some s) (Some e) None None None None
       None None None) x
       = (truthy (call_filter (Date d) x) \<and> truthy (call_filter (StartDate s) x)
          \<and> truthy (call_filter (EndDate e) x))"
    unfolding satisfies_create_filters by simp
  have clock: "date_of (time (x\<lparr>time := (time x)\<lparr>dt_hour := hh, dt_minute := mm,
      dt_second := ss\<rparr>\<rparr>)) = date_of (time x)"
    by (simp add: date_of_def)
  have clock_date: "truthy (call_filter (Date d)
         (x\<lparr>time := (time x)\<lparr>dt_hour := hh, dt_minute := mm, dt_second := ss\<rparr>\<rparr>))
       = truthy (call_filter (Date d) x)"
    unfolding truthy_call_filter criterion_holds.simps clock ..
  have clock_start: "truthy (call_filter (StartDate d)
         (x\<lparr>time := (time x)\<lparr>dt_hour := hh, dt_minute := mm, dt_second := ss\<rparr>\<rparr>))
       = truthy (call_filter (StartDate d) x)"
    unfolding truthy_call_filter criterion_holds.simps clock ..
  have clock_end: "truthy (call_filter (EndDate d)
         (x\<lparr>time := (time x)\<lparr>dt_hour := hh, dt_minute := mm, dt_second := ss\<rparr>\<rparr>))
       = truthy (call_filter (EndDate d) x)"
    unfolding truthy_call_filter criterion_holds.simps clock ..
  from made on_day from_day to_day together clock_date clock_start clock_end
  show ?thesis
    by (intro conjI) simp_all
qed

theorem date_filters_compare_calendar_date_witness:
  "truthy (call_filter (Date new_year_2020) approach_2020)
   \<and> truthy (call_filter (Date new_year_2020) approach_unknown)
   \<and> \<not> truthy (call_filter (Date new_year_2020) approach_next_day)
   \<and> truthy (call_filter (StartDate new_year_2020) approach_2020)
   \<and> truthy (call_filter (StartDate new_years_eve_2019) approach_2020)
   \<and> \<not> truthy (call_filter (StartDate second_day_2020) approach_unknown)
   \<and> truthy (call_filter (EndDate new_year_2020) approach_unknown)
   \<and> \<not> truthy (call_filter (EndDate new_year_2020) approach_next_day)
   \<and> \<not> truthy (call_filter (EndDate new_years_eve_2019) approach_2020)
   \<and> truthy (call_filter (EndDate second_day_2020) approach_2020)"
proof -
  note on_day = date_filters_compare_calendar_date
    [THEN conjunct2, THEN conjunct2, THEN conjunct2, THEN conjunct1]
  note from_day = date_filters_compare_calendar_date
    [THEN conjunct2, THEN conjunct2, THEN conjunct2, THEN conjunct2, THEN conjunct1]
  note to_day = date_filters_compare_calendar_date
    [THEN conjunct2, THEN conjunct2, THEN conjunct2, THEN conjunct2, THEN conjunct2,
     THEN conjunct1]
  note fixtures = approach_2020_def approach_unknown_def approach_next_day_def
    new_year_2020_def new_years_eve_2019_def second_day_2020_def
  have a: "truthy (call_filter (Date new_year_2020) approach_2020)"
    unfolding on_day by (simp add: fixtures)
  have b: "truthy (call_filter (Date new_year_2020) approach_unknown)"
    unfolding on_day by (simp add: fixtures)
  have c: "\<not> truthy (call_filter (Date new_year_2020) approach_next_day)"
    unfolding on_day by (simp add: fixtures)
  have d: "truthy (call_filter (StartDate new_year_2020) approach_2020)"
    unfolding from_day by (simp add: fixtures)
  have e: "truthy (call_filter (StartDate new_years_eve_2019) approach_2020)"
    unfolding from_day by (simp add: fixtures)
  have f: "\<not> truthy (call_filter (StartDate second_day_2020) approach_unknown)"
    unfolding from_day by (simp add: fixtures)
  have g: "truthy (call_filter (EndDate new_year_2020) approach_unknown)"
    unfolding to_day by (simp add: fixtures)
  have h: "\<not> truthy (call_filter (EndDate new_year_2020) approach_next_day)"
    unfolding to_day by (simp add: fixtures)
  have i: "\<not> truthy (call_filter (EndDate new_years_eve_2019) approach_2020)"
    unfolding to_day by (simp add: fixtures)
  have j: "truthy (call_filter (EndDate second_day_2020) approach_2020)"
    unfolding to_day by (simp add: fixtures)
  from a b c d e f g h i j show ?thesis
    by blast
qed

text \<open>
  C8. A minimum above the maximum, both bounds nonzero: \<open>create_filters\<close> returns
  both filters as for any other bounds, no approach makes both of them true, and so
  nothing of any collection of approaches matches, for the distance, the velocity and
  the diameter, whatever the other criteria are. The same holds for a start date after
  the end date. Making and calling the filters are total: they return, with no error.
\<close>

theorem min_above_max_matches_nothing:
  "(float_truthy lo \<and> float_truthy hi \<and> float_gt lo hi \<longrightarrow>
      create_filters None None None (Some lo) (Some hi) None None None None None
        = [DistanceMin lo, DistanceMax hi]
      \<and> \<not> (truthy (call_filter (DistanceMin lo) x) \<and> truthy (call_filter (DistanceMax hi) x))
      \<and> filter (satisfies_all (create_filters date start_date end_date (Some lo) (Some hi)
            velocity_min velocity_max diameter_min diameter_max hazardous_arg)) approaches = []
      \<and> filter (satisfies_all (create_filters date start_date end_date distance_min
            distance_max (Some lo) (Some hi) diameter_min diameter_max hazardous_arg))
            approaches = []
      \<and> filter (satisfies_all (create_filters date start_date end_date distance_min
            distance_max velocity_min velocity_max (Some lo) (Some hi) hazardous_arg))
            approaches = [])
   \<and> (date_ge s e \<and> s \<noteq> e \<longrightarrow>
        filter (satisfies_all (create_filters date (Some s) (Some e) distance_min
            distance_max velocity_min velocity_max diameter_min diameter_max hazardous_arg))
            approaches = [])"
proof (intro conjI impI)
  assume h: "float_truthy lo \<and> float_truthy hi \<and> float_gt lo hi"
  then have gt: "float_gt lo hi" and tl: "float_truthy lo" and th: "float_truthy hi"
    by simp_all
  from tl th show "create_filters None None None (Some lo) (Some hi) None None None None None
        = [DistanceMin lo, DistanceMax hi]"
    by (simp add: create_filters_def)
  from float_bounds_crossed [OF gt, of "distance x"]
  show "\<not> (truthy (call_filter (DistanceMin lo) x) \<and> truthy (call_filter (DistanceMax hi) x))"
    by (simp add: truthy_call_filter)
  have "\<not> satisfies_all (create_filters date start_date end_date (Some lo) (Some hi)
            velocity_min velocity_max diameter_min diameter_max hazardous_arg) z" for z
    unfolding satisfies_create_filters
    using float_bounds_crossed [OF gt, of "distance z"] tl th by blast
  then show "filter (satisfies_all (create_filters date start_date end_date (Some lo) (Some hi)
            velocity_min velocity_max diameter_min diameter_max hazardous_arg)) approaches = []"
    by (rule filter_none_satisfy)
  have "\<not> satisfies_all (create_filters date start_date end_date distance_min
            distance_max (Some lo) (Some hi) diameter_min diameter_max hazardous_arg) z" for z
    unfolding satisfies_create_filters
    using float_bounds_crossed [OF gt, of "velocity z"] tl th by blast
  then show "filter (satisfies_all (create_filters date start_date end_date distance_min
            distance_max (Some lo) (Some hi) diameter_min diameter_max hazardous_arg))
            approaches = []"
    by (rule filter_none_satisfy)
  have "\<not> satisfies_all (create_filters date start_date end_date distance_min
            distance_max velocity_min velocity_max (Some lo) (Some hi) hazardous_arg) z" for z
    unfolding satisfies_create_filters
    using float_bounds_crossed [OF gt, of "diameter (neo z)"] tl th by blast
  then show "filter (satisfies_all (create_filters date start_date end_date distance_min
            distance_max velocity_min velocity_max (Some lo) (Some hi) hazardous_arg))
            approaches = []"
    by (rule filter_none_satisfy)
next
  assume h: "date_ge s e \<and> s \<noteq> e"
  have crossed: "\<not> (date_ge t s \<and> date_le t e)" for t
  proof
    assume "date_ge t s \<and> date_le t e"
    then have "date_le s e"
      unfolding date_ge_def by (blast intro: date_le_trans)
    moreover from h have "date_le e s"
      by (simp add: date_ge_def)
    ultimately have "s = e"
      by (rule date_le_antisym)
    with h show False
      by simp
  qed
  have "\<not> satisfies_all (create_filters date (Some s) (Some e) distance_min
            distance_max velocity_min velocity_max diameter_min diameter_max hazardous_arg) z"
    for z
    unfolding satisfies_create_filters
    using crossed [of "date_of (time z)"] by blast
  then show "filter (satisfies_all (create_filters date (Some s) (Some e) distance_min
            distance_max velocity_min velocity_max diameter_min diameter_max hazardous_arg))
            approaches = []"
    by (rule filter_none_satisfy)
qed

theorem min_above_max_matches_nothing_witness:
  "float_truthy (Fin 0.5) \<and> float_truthy (Fin 0.1) \<and> float_gt (Fin 0.5) (Fin 0.1)
   \<and> create_filters None None None (Some (Fin 0.5)) (Some (Fin 0.1)) None None None None None
        = [DistanceMin (Fin 0.5), DistanceMax (Fin 0.1)]
   \<and> filter (satisfies_all (create_filters None None None (Some (Fin 0.5)) (Some (Fin 0.1))
        None None None None None)) [approach_2020, approach_unknown] = []"
proof -
  have pre: "float_truthy (Fin 0.5) \<and> float_truthy (Fin 0.1) \<and> float_gt (Fin 0.5) (Fin 0.1)"
    by (simp add: float_truthy_def)
  note w = min_above_max_matches_nothing [of "Fin 0.5" "Fin 0.1" approach_2020 None None None
      None None None None None "[approach_2020, approach_unknown]" None None
      "\<lparr>year = 2020, month = 1, day = 1\<rparr>" "\<lparr>year = 2020, month = 1, day = 1\<rparr>",
      THEN conjunct1, rule_format, OF pre]
  from pre w show ?thesis
    by blast
qed

text \<open>
  C9. With every criterion absent, \<open>create_filters\<close> returns the empty collection.
  Every close approach satisfies it, and a query with these filters and no limit gives
  back all the approaches in their original order.
\<close>

theorem no_criteria_no_constraint:
  "create_filters None None None None None None None None None None = []
   \<and> satisfies_all (create_filters None None None None None None None None None None) x
   \<and> query approaches (create_filters None None None None None None None None None None) None
       = Inr approaches"
  by (simp add: create_filters_def satisfies_all_def query_def limit_def)

text \<open>
  C10. Every filter that \<open>create_filters\<close> returns, called on a close approach, returns
  the approach itself when its criterion holds and the boolean \<open>False\<close> when it does not,
  never the boolean \<open>True\<close>. So its result is true in Python's sense exactly when the
  criterion holds, and it never equals \<open>True\<close>.
\<close>

theorem filter_returns_approach_or_false:
  assumes "f \<in> set (create_filters date start_date end_date distance_min distance_max
       velocity_min velocity_max diameter_min diameter_max hazardous_arg)"
  shows "(call_filter f x = PyApproach x \<or> call_filter f x = PyBool False)
       \<and> call_filter f x \<noteq> PyBool True
       \<and> (criterion_holds f x \<longrightarrow> call_filter f x = PyApproach x)
       \<and> (\<not> criterion_holds f x \<longrightarrow> call_filter f x = PyBool False)
       \<and> truthy (call_filter f x) = criterion_holds f x"
  by (simp add: call_filter_criterion)

theorem filter_returns_approach_or_false_witness:
  "DistanceMax (Fin 0.5) \<in> set (create_filters None None None None (Some (Fin 0.5)) None None
       None None None)
   \<and> criterion_holds (DistanceMax (Fin 0.5)) approach_2020
   \<and> call_filter (DistanceMax (Fin 0.5)) approach_2020 = PyApproach approach_2020
   \<and> call_filter (DistanceMax (Fin 0.5)) approach_2020 \<noteq> PyBool True
   \<and> truthy (call_filter (DistanceMax (Fin 0.5)) approach_2020)"
proof -
  have mem: "DistanceMax (Fin 0.5) \<in> set (create_filters None None None None (Some (Fin 0.5))
      None None None None None)"
    by (simp add: create_filters_def float_truthy_def)
  have holds: "criterion_holds (DistanceMax (Fin 0.5)) approach_2020"
    by (simp add: approach_2020_def)
  from filter_returns_approach_or_false [OF mem, of approach_2020] mem holds
  show ?thesis
    by blast
qed

end
